theory Spec2Isabelle
  imports Complex_Main "HOL-Library.Sublist"
begin

section \<open>The MXSEC demo API: a shallow embedding of src/api/main.py\<close>

text \<open>
  The module builds three fixtures when it is imported (\<open>FAKE_USER\<close>, \<open>FAKE_WEBSITES\<close>,
  \<open>FAKE_ALERTS\<close>) and registers six route handlers that read them. Python values are
  modelled as follows.
  \<^item> \<open>str\<close> is \<open>string\<close>; a character outside ASCII is written as the bytes of its
    UTF-8 encoding (the \<open>u\<close> with diaeresis of the German texts is \<open>0xC3 0xBC\<close>), so
    equality of strings is equality of the Python strings.
  \<^item> \<open>int\<close> is \<open>int\<close> (unbounded, as in Python).
  \<^item> \<open>datetime\<close> is the number of microseconds since the epoch, and \<open>timedelta\<close> a
    number of microseconds; \<open>datetime - timedelta\<close> is subtraction. The readings of
    \<open>datetime.utcnow()\<close> are present-day instants, far from the ends of the range of
    \<open>datetime\<close>, where the subtraction of at most one day cannot overflow.
  \<^item> \<open>float\<close> is the rational value \<open>m * 2 ^ e\<close> of an IEEE double.
  \<^item> \<open>Optional[t]\<close> is \<open>t option\<close>.
  \<^item> \<open>EmailStr\<close> is the library's validated e-mail string: giving a string to a field of
    this type runs the library's validation, which rejects the string or stores its
    normalised form (subsection \<open>EmailStr\<close> below).
\<close>

subsection \<open>Models (the pydantic classes, lines 24 to 63)\<close>

type_synonym datetime = int

record User =
  user_id :: string
  user_email :: string
  user_plan :: string

record LoginRequest =
  email :: string
  password :: string

record OverviewResponse =
  overall_score :: int
  score_change :: int
  attacks_last_24h :: int
  attacks_change_percent :: int
  uptime_percent :: rat
  uptime_note :: string
  targets_total :: int
  targets_note :: string

record Website =
  website_id :: string
  domain :: string
  status :: string
  last_score :: "int option"
  last_scan_at :: "datetime option"
  risk_level :: "string option"

record Alert =
  alert_id :: string
  alert_type :: string
  severity :: string
  message :: string
  target_type :: string
  target_label :: string
  created_at :: datetime
  tag :: string

text \<open>
  The fields \<open>id\<close>, \<open>email\<close> and \<open>plan\<close> of \<open>User\<close>, \<open>id\<close> of \<open>Website\<close>, and \<open>id\<close> and
  \<open>type\<close> of \<open>Alert\<close> carry the name of their class as a prefix, since the fields of
  all records share one name space.

  The records hold the field values of a built object. The \<open>email\<close> of a \<open>LoginRequest\<close>
  and of a \<open>User\<close> is an \<open>EmailStr\<close>: the record holds what the validation returns, not
  the string given. \<open>new_LoginRequest\<close> below is the one way the application builds a
  \<open>LoginRequest\<close>.
\<close>

subsection \<open>Library values: timedelta, float literals, slices, HTTPException\<close>

text \<open>\<open>timedelta(days=d, hours=h, minutes=m)\<close>, in microseconds.\<close>

definition timedelta :: "int \<Rightarrow> int \<Rightarrow> int \<Rightarrow> int" where
  "timedelta days hours minutes = ((days * 24 + hours) * 60 + minutes) * 60 * 1000000"

text \<open>The double with mantissa \<open>m\<close> and exponent \<open>e\<close>.\<close>

definition double :: "int \<Rightarrow> int \<Rightarrow> rat" where
  "double m e = (if 0 \<le> e then of_int m * 2 ^ nat e else of_int m / 2 ^ nat (- e))"

text \<open>
  The literal \<open>99.96\<close> denotes the double nearest to the decimal 99.96, which is
  \<open>0x1.8fd70a3d70a3dp+6 = 7034059667999293 * 2 ^ -46\<close>.
\<close>

definition float_99_96 :: rat where
  "float_99_96 = double 7034059667999293 (- 46)"

text \<open>
  \<open>xs[:stop]\<close>: a negative \<open>stop\<close> counts from the end of the list, and the bound is
  clipped to \<open>0 .. len(xs)\<close>; slicing never raises.
\<close>

definition slice_to :: "'a list \<Rightarrow> int \<Rightarrow> 'a list" where
  "slice_to xs stop =
     (let n = int (length xs);
          j = (if stop < 0 then max (n + stop) 0 else min stop n)
      in take (nat j) xs)"

datatype HTTPException = HTTPException (status_code: int) (detail: string)

subsection \<open>Library values: EmailStr\<close>


definition is_space :: "char \<Rightarrow> bool" where
  "is_space c \<longleftrightarrow>
     c \<in> set [CHR 0x09, CHR 0x0A, CHR 0x0B, CHR 0x0C, CHR 0x0D,
                CHR 0x1C, CHR 0x1D, CHR 0x1E, CHR 0x1F, CHR 0x20]"

text \<open>\<open>s.strip()\<close>.\<close>

definition strip :: "string \<Rightarrow> string" where
  "strip s = rev (dropWhile is_space (rev (dropWhile is_space s)))"

text \<open>\<open>c.lower()\<close> of a character.\<close>

definition lower :: "char \<Rightarrow> char" where
  "lower c =
     (case map_of (zip ''ABCDEFGHIJKLMNOPQRSTUVWXYZ'' ''abcdefghijklmnopqrstuvwxyz'') c of
        Some l \<Rightarrow> l
      | None \<Rightarrow> c)"

text \<open>\<open>s.split('.')\<close>.\<close>

fun split_dots :: "string \<Rightarrow> string list" where
  "split_dots [] = [[]]"
| "split_dots (c # cs) =
     (if c = CHR ''.'' then [] # split_dots cs
      else (case split_dots cs of
              [] \<Rightarrow> [[c]]
            | l # ls \<Rightarrow> (c # l) # ls))"

text \<open>
  The characters of a word: letters, digits and
  \<open>! # $ % & ' * + - / = ? ^ _ ` { | } ~\<close>. They are the \<open>atext\<close> of a local part and
  also the characters of a word of an unquoted name.
\<close>

definition atext :: "char \<Rightarrow> bool" where
  "atext c \<longleftrightarrow>
     c \<in> set ''abcdefghijklmnopqrstuvwxyzABCDEFGHIJKLMNOPQRSTUVWXYZ0123456789''
     \<or> c \<in> set [CHR 0x21, CHR 0x23, CHR 0x24, CHR 0x25, CHR 0x26, CHR 0x27, CHR 0x2A,
                  CHR 0x2B, CHR 0x2D, CHR 0x2F, CHR 0x3D, CHR 0x3F, CHR 0x5E, CHR 0x5F,
                  CHR 0x60, CHR 0x7B, CHR 0x7C, CHR 0x7D, CHR 0x7E]
     \<or> 128 \<le> (of_char c :: nat)"

text \<open>
  The end of the pattern, \<open>\s*<(.+)>\s*\<close>, matched against all of \<open>rest\<close>: the group.
\<close>

definition angle_addr :: "string \<Rightarrow> string option" where
  "angle_addr rest =
     (let t = strip rest in
      if 3 \<le> length t \<and> hd t = CHR 0x3C \<and> last t = CHR 0x3E
         \<and> CHR 0x0A \<notin> set (butlast (tl t))
      then Some (butlast (tl t))
      else None)"

text \<open>
  A name in double quotes, after its opening quote. The pattern takes the quoted text as
  long as it can, so the closing quote is the last quote that the end of the pattern can
  follow. \<open>nonempty\<close> says that the quoted text read so far has a character.
\<close>

fun quoted_name :: "bool \<Rightarrow> string \<Rightarrow> string option" where
  "quoted_name nonempty [] = None"
| "quoted_name nonempty (c # cs) =
     (case quoted_name True cs of
        Some x \<Rightarrow> Some x
      | None \<Rightarrow> if c = CHR 0x22 \<and> nonempty then angle_addr cs else None)"

text \<open>
  \<open>pretty_email_regex.fullmatch(value)\<close>: the address between the angle brackets, or
  \<open>None\<close> when the value has not the form \<open>name <address>\<close>.
\<close>

definition pretty_email :: "string \<Rightarrow> string option" where
  "pretty_email v =
     (case dropWhile is_space v of
        [] \<Rightarrow> None
      | c # cs \<Rightarrow>
          if atext c then angle_addr (dropWhile (\<lambda>x. atext x \<or> is_space x) cs)
          else if c = CHR 0x22 then quoted_name False cs
          else if c = CHR 0x3C then angle_addr (c # cs)
          else None)"

definition addr_spec :: "string \<Rightarrow> string" where
  "addr_spec v = (case pretty_email v of Some x \<Rightarrow> x | None \<Rightarrow> v)"

definition dot_atom :: "string \<Rightarrow> bool" where
  "dot_atom l \<longleftrightarrow> list_all (\<lambda>w. w \<noteq> [] \<and> list_all atext w) (split_dots l)"

definition CASE_INSENSITIVE_MAILBOX_NAMES :: "string list" where
  "CASE_INSENSITIVE_MAILBOX_NAMES =
     [''info'', ''marketing'', ''sales'', ''support'', ''abuse'', ''noc'', ''security'',
      ''postmaster'', ''hostmaster'', ''usenet'', ''news'', ''webmaster'', ''www'', ''uucp'',
      ''ftp'']"

definition normal_local :: "string \<Rightarrow> string" where
  "normal_local l =
     (if map lower l \<in> set CASE_INSENSITIVE_MAILBOX_NAMES then map lower l else l)"

definition ldh :: "char \<Rightarrow> bool" where
  "ldh c \<longleftrightarrow>
     c \<in> set ''abcdefghijklmnopqrstuvwxyz0123456789-'' \<or> 128 \<le> (of_char c :: nat)"

definition hostname_label :: "string \<Rightarrow> bool" where
  "hostname_label l \<longleftrightarrow>
     l \<noteq> [] \<and> length l \<le> 63 \<and> list_all ldh l
     \<and> hd l \<noteq> CHR ''-'' \<and> last l \<noteq> CHR ''-''
     \<and> take 2 (drop 2 l) \<noteq> ''--''"

definition SPECIAL_USE_DOMAIN_NAMES :: "string list" where
  "SPECIAL_USE_DOMAIN_NAMES =
     [''arpa'', ''invalid'', ''local'', ''localhost'', ''onion'', ''test'']"

text \<open>
  A domain in lower case. It lies in a special-use domain when it is one of the names or
  ends in a dot and one of them; the names have no dot, so that is when its last label is
  one of them.
\<close>

definition domain_name :: "string \<Rightarrow> bool" where
  "domain_name d \<longleftrightarrow>
     length d \<le> 253
     \<and> 2 \<le> length (split_dots d)
     \<and> list_all hostname_label (split_dots d)
     \<and> (last d \<in> set ''abcdefghijklmnopqrstuvwxyz'' \<or> 128 \<le> (of_char (last d) :: nat))
     \<and> last (split_dots d) \<notin> set SPECIAL_USE_DOMAIN_NAMES"

text \<open>
  \<open>email_validator.validate_email(email, check_deliverability=False).normalized\<close>, or
  \<open>None\<close> for \<open>EmailNotValidError\<close>.
\<close>

definition email_validator :: "string \<Rightarrow> string option" where
  "email_validator e =
     (let l = takeWhile (\<lambda>c. c \<noteq> CHR ''@'') e;
          r = dropWhile (\<lambda>c. c \<noteq> CHR ''@'') e;
          d = map lower (tl r)
      in if r = [] then None
         else if l = [] \<or> 64 < length l \<or> \<not> dot_atom l then None
         else if \<not> domain_name d then None
         else if 254 < length (normal_local l @ ''@'' @ d) then None
         else Some (normal_local l @ ''@'' @ d))"

text \<open>
  \<open>EmailStr\<close>: pydantic's \<open>validate_email(value)[1]\<close>, or \<open>None\<close> when the value is not a
  valid address.
\<close>

definition EmailStr :: "string \<Rightarrow> string option" where
  "EmailStr v =
     (if 2048 < length v then None else email_validator (strip (addr_spec v)))"

text \<open>
  \<open>LoginRequest(email=e, password=p)\<close>, as the framework builds it from the body of the
  request: \<open>None\<close> when the validation of the e-mail fails. A password is any string.
\<close>

definition new_LoginRequest :: "string \<Rightarrow> string \<Rightarrow> LoginRequest option" where
  "new_LoginRequest e p = map_option (\<lambda>v. \<lparr>email = v, password = p\<rparr>) (EmailStr e)"

subsection \<open>The fixtures (lines 70 to 152)\<close>

text \<open>
  Every fixture entry with a timestamp calls \<open>datetime.utcnow()\<close> for itself, so importing
  the module reads the clock eight times: readings 0 to 3 for the websites, readings 4 to
  7 for the alerts, in program order. A \<open>clock\<close> gives the reading of each call.
  The e-mail of \<open>FAKE_USER\<close> is an \<open>EmailStr\<close>; the validation returns the literal as it
  is written (lemma \<open>EmailStr_configured\<close>).
\<close>

type_synonym clock = "nat \<Rightarrow> datetime"

record globals =
  FAKE_USER :: User
  FAKE_WEBSITES :: "Website list"
  FAKE_ALERTS :: "Alert list"

definition init_FAKE_USER :: User where
  "init_FAKE_USER = \<lparr>user_id = ''u_123'', user_email = ''mxdev@example.de'', user_plan = ''pro''\<rparr>"

definition init_FAKE_WEBSITES :: "clock \<Rightarrow> Website list" where
  "init_FAKE_WEBSITES utcnow =
     [\<lparr>website_id = ''w_1'', domain = ''mxdev.de'', status = ''online'',
       last_score = Some 93,
       last_scan_at = Some (utcnow 0 - timedelta 0 0 20),
       risk_level = Some ''low''\<rparr>,
      \<lparr>website_id = ''w_2'', domain = ''shop.mxdev.de'', status = ''online'',
       last_score = Some 81,
       last_scan_at = Some (utcnow 1 - timedelta 0 1 30),
       risk_level = Some ''medium''\<rparr>,
      \<lparr>website_id = ''w_3'', domain = ''demo.mxsec.app'', status = ''reachable'',
       last_score = Some 67,
       last_scan_at = Some (utcnow 2 - timedelta 0 12 0),
       risk_level = Some ''high''\<rparr>,
      \<lparr>website_id = ''w_4'', domain = ''kundenprojekt.de'', status = ''ssl_error'',
       last_score = Some 54,
       last_scan_at = Some (utcnow 3 - timedelta 1 0 0),
       risk_level = Some ''critical''\<rparr>]"

definition init_FAKE_ALERTS :: "clock \<Rightarrow> Alert list" where
  "init_FAKE_ALERTS utcnow =
     [\<lparr>alert_id = ''a_1'', alert_type = ''cve'', severity = ''critical'',
       message = ''Kritische Schwachstelle gefunden'',
       target_type = ''website'', target_label = ''kundenprojekt.de'',
       created_at = utcnow 4 - timedelta 0 0 5,
       tag = ''CVE''\<rparr>,
      \<lparr>alert_id = ''a_2'', alert_type = ''ssh'', severity = ''warn'',
       message = ''Mehrere fehlerhafte SSH Logins'',
       target_type = ''server'', target_label = ''mc-prod-01'',
       created_at = utcnow 5 - timedelta 0 0 12,
       tag = ''SSH''\<rparr>,
      \<lparr>alert_id = ''a_3'', alert_type = ''info'', severity = ''info'',
       message = ''Neue Domain hinzugef'' @ [CHR 0xC3, CHR 0xBC] @ ''gt'',
       target_type = ''website'', target_label = ''demo.mxsec.app'',
       created_at = utcnow 6 - timedelta 0 0 34,
       tag = ''Info''\<rparr>,
      \<lparr>alert_id = ''a_4'', alert_type = ''autofix'', severity = ''info'',
       message = ''AutoFix angewendet (Firewall)'',
       target_type = ''server'', target_label = ''mc-prod-01'',
       created_at = utcnow 7 - timedelta 0 1 0,
       tag = ''AutoFix''\<rparr>]"

text \<open>The module's globals once the import has run.\<close>

definition module_init :: "clock \<Rightarrow> globals" where
  "module_init utcnow =
     \<lparr>FAKE_USER = init_FAKE_USER,
      FAKE_WEBSITES = init_FAKE_WEBSITES utcnow,
      FAKE_ALERTS = init_FAKE_ALERTS utcnow\<rparr>"

subsection \<open>The handlers (lines 159 to 235)\<close>

text \<open>
  A handler reads the globals; none assigns to them or calls a mutating method on them.
  \<open>login\<close> receives the \<open>LoginRequest\<close> that the framework has built, so
  \<open>payload.email\<close> is the normalised e-mail; it raises \<open>HTTPException\<close> when that differs
  from the e-mail of \<open>FAKE_USER\<close>. The password is never read.
\<close>

definition login :: "globals \<Rightarrow> LoginRequest \<Rightarrow> HTTPException + User" where
  "login g payload =
     (if email payload \<noteq> user_email (FAKE_USER g)
      then Inl (HTTPException 401 (''Ung'' @ [CHR 0xC3, CHR 0xBC] @ ''ltige Zugangsdaten''))
      else Inr (FAKE_USER g))"

definition get_me :: "globals \<Rightarrow> User" where
  "get_me g = FAKE_USER g"

definition get_overview :: OverviewResponse where
  "get_overview =
     \<lparr>overall_score = 89,
      score_change = 4,
      attacks_last_24h = 432,
      attacks_change_percent = 18,
      uptime_percent = float_99_96,
      uptime_note = ''1 kurzer Ausfall bei shop.mxdev.de (3 Minuten).'',
      targets_total = 4,
      targets_note = ''3 Websites, 1 Server. Grenze deines Pro-Plans.''\<rparr>"

definition list_websites :: "globals \<Rightarrow> Website list" where
  "list_websites g = FAKE_WEBSITES g"

definition list_alerts :: "globals \<Rightarrow> int \<Rightarrow> Alert list" where
  "list_alerts g limit = slice_to (FAKE_ALERTS g) limit"

definition root :: "(string \<times> string) list" where
  "root = [(''status'', ''ok''), (''service'', ''mxsec-api'')]"

subsection \<open>The application: one request, one response\<close>

text \<open>
  A request names a route and carries what the client sends: the strings \<open>email\<close> and
  \<open>password\<close> of the body of \<open>POST /api/v1/auth/login\<close>, and the query parameter
  \<open>limit\<close> of \<open>GET /api/v1/alerts\<close>, which is 10 when the query leaves it out. The
  framework builds the \<open>LoginRequest\<close> from the body and answers with status 422 when
  that fails, without calling the handler. A response is the value the handler returns,
  or the failure: the validation error, or the \<open>HTTPException\<close> the handler raises. The
  globals are threaded through, so that what a call leaves behind is part of its result.
\<close>

datatype request =
    PostLogin string string
  | GetMe
  | GetOverview
  | GetWebsites
  | GetAlerts "int option"
  | GetRoot

datatype body =
    UserBody User
  | OverviewBody OverviewResponse
  | WebsitesBody "Website list"
  | AlertsBody "Alert list"
  | DictBody "(string \<times> string) list"

datatype failure =
    RequestValidationError
  | Raised HTTPException

type_synonym response = "failure + body"

fun app :: "globals \<Rightarrow> request \<Rightarrow> response \<times> globals" where
  "app g (PostLogin raw_email raw_password) =
     (case new_LoginRequest raw_email raw_password of
        None \<Rightarrow> (Inl RequestValidationError, g)
      | Some payload \<Rightarrow> (map_sum Raised UserBody (login g payload), g))"
| "app g GetMe = (Inr (UserBody (get_me g)), g)"
| "app g GetOverview = (Inr (OverviewBody get_overview), g)"
| "app g GetWebsites = (Inr (WebsitesBody (list_websites g)), g)"
| "app g (GetAlerts None) = (Inr (AlertsBody (list_alerts g 10)), g)"
| "app g (GetAlerts (Some limit)) = (Inr (AlertsBody (list_alerts g limit)), g)"
| "app g GetRoot = (Inr (DictBody root), g)"

text \<open>
  The HTTP status of a response: 200, 422 for a validation error, or the status code of
  the exception.
\<close>

fun http_status :: "response \<Rightarrow> int" where
  "http_status (Inl RequestValidationError) = 422"
| "http_status (Inl (Raised e)) = status_code e"
| "http_status (Inr b) = 200"

text \<open>Serving a sequence of requests one after the other, from the globals \<open>g\<close>.\<close>

fun serve :: "globals \<Rightarrow> request list \<Rightarrow> response list \<times> globals" where
  "serve g [] = ([], g)"
| "serve g (r # rs) =
     (case app g r of (out, g') \<Rightarrow>
        (case serve g' rs of (outs, g'') \<Rightarrow> (out # outs, g'')))"

text \<open>A clock for concrete runs: 3 November 2025, 25 microseconds from reading to reading.\<close>

definition sample_clock :: clock where
  "sample_clock k = 1762180000000000 + 25 * int k"

section \<open>Notions of the specification\<close>

text \<open>
  The specification speaks of a valid domain string and of a documented set of statuses;
  the source declares both fields as plain \<open>str\<close>. A domain is read here as a host name:
  at most 253 characters, at least two labels separated by dots, each label of 1 to 63
  letters, digits and hyphens, with no hyphen at either end. The statuses that the
  specification's data model names are \<open>online\<close>, \<open>reachable\<close> and \<open>ssl_error\<close>.
\<close>

definition label_char :: "char \<Rightarrow> bool" where
  "label_char c \<longleftrightarrow>
     c \<in> set ''abcdefghijklmnopqrstuvwxyzABCDEFGHIJKLMNOPQRSTUVWXYZ0123456789-''"

definition valid_label :: "string \<Rightarrow> bool" where
  "valid_label l \<longleftrightarrow>
     l \<noteq> [] \<and> length l \<le> 63 \<and> list_all label_char l
     \<and> hd l \<noteq> CHR ''-'' \<and> last l \<noteq> CHR ''-''"

definition valid_domain :: "string \<Rightarrow> bool" where
  "valid_domain d \<longleftrightarrow>
     length d \<le> 253 \<and> 2 \<le> length (split_dots d) \<and> list_all valid_label (split_dots d)"

definition documented_statuses :: "string list" where
  "documented_statuses = [''online'', ''reachable'', ''ssl_error'']"

text \<open>
  The three invariants of the data model: identifiers are unique within each collection
  (the one user, the websites, the alerts); a website has \<open>last_score\<close> and \<open>risk_level\<close>
  both or neither; the alerts' \<open>created_at\<close> strictly decreases along the display order.
\<close>

definition ids_unique :: "globals \<Rightarrow> bool" where
  "ids_unique g \<longleftrightarrow>
     distinct (map user_id [FAKE_USER g])
     \<and> distinct (map website_id (FAKE_WEBSITES g))
     \<and> distinct (map alert_id (FAKE_ALERTS g))"

definition paired_optionality :: "globals \<Rightarrow> bool" where
  "paired_optionality g \<longleftrightarrow>
     list_all (\<lambda>w. (last_score w = None) = (risk_level w = None)) (FAKE_WEBSITES g)"

definition newest_first :: "globals \<Rightarrow> bool" where
  "newest_first g \<longleftrightarrow> sorted_wrt (\<lambda>a b. created_at b < created_at a) (FAKE_ALERTS g)"

definition fixture_invariants :: "globals \<Rightarrow> bool" where
  "fixture_invariants g \<longleftrightarrow> ids_unique g \<and> paired_optionality g \<and> newest_first g"

text \<open>
  The clock readings of the four alerts are close when each reading is less than the
  difference of the two neighbouring offsets after the reading before it: less than
  7 minutes (12 - 5), 22 minutes (34 - 12) and 26 minutes (60 - 34).
\<close>

definition readings_close :: "clock \<Rightarrow> bool" where
  "readings_close utcnow \<longleftrightarrow>
     utcnow 5 - utcnow 4 < timedelta 0 0 7
     \<and> utcnow 6 - utcnow 5 < timedelta 0 0 22
     \<and> utcnow 7 - utcnow 6 < timedelta 0 0 26"

text \<open>
  A clock of an import that stalls for ten minutes after the first alert is built (the
  process is stopped, or the wall clock is stepped): readings 0 to 4 are taken at
  \<open>sample_clock 0\<close>, readings 5 and later ten minutes after it.
\<close>

definition stalled_clock :: clock where
  "stalled_clock k = (if k < 5 then sample_clock 0 else sample_clock 0 + timedelta 0 0 10)"

section \<open>Alerts\<close>

lemma length_init_FAKE_ALERTS: "length (init_FAKE_ALERTS clk) = 4"
  by (simp add: init_FAKE_ALERTS_def)

lemma FAKE_ALERTS_module_init: "FAKE_ALERTS (module_init clk) = init_FAKE_ALERTS clk"
  by (simp add: module_init_def)

lemma alert_ids: "map alert_id (init_FAKE_ALERTS clk) = [''a_1'', ''a_2'', ''a_3'', ''a_4'']"
  by (simp add: init_FAKE_ALERTS_def)

lemma slice_to_nonneg: "0 \<le> stop \<Longrightarrow> slice_to xs stop = take (nat stop) xs"
  by (auto simp: slice_to_def Let_def min_def)

lemma slice_to_neg: "stop < 0 \<Longrightarrow> slice_to xs stop = take (length xs - nat (- stop)) xs"
proof -
  assume neg: "stop < 0"
  have "nat (max (int (length xs) + stop) 0) = length xs - nat (- stop)"
    using neg by arith
  with neg show ?thesis
    by (simp add: slice_to_def Let_def)
qed

text \<open>
  Claim C1. For every limit \<open>0 \<le> limit\<close>, \<open>list_alerts\<close> returns the first \<open>limit\<close> alerts
  of the fixture: exactly \<open>min limit 4\<close> of them, in display order (their ids are the
  first ids of \<open>a_1, a_2, a_3, a_4\<close>), a prefix of the full sequence, which is also the
  answer to the limit 4. The limit 0 gives the empty list and a limit above 4 gives all
  four alerts, with no error and no padding.
\<close>

theorem list_alerts_prefix:
  assumes "0 \<le> limit"
  shows "fst (app (module_init clk) (GetAlerts (Some limit)))
           = Inr (AlertsBody (list_alerts (module_init clk) limit))
    \<and> list_alerts (module_init clk) limit = take (nat limit) (FAKE_ALERTS (module_init clk))
    \<and> int (length (list_alerts (module_init clk) limit)) = min limit 4
    \<and> map alert_id (list_alerts (module_init clk) limit)
           = take (nat limit) [''a_1'', ''a_2'', ''a_3'', ''a_4'']
    \<and> prefix (list_alerts (module_init clk) limit) (FAKE_ALERTS (module_init clk))
    \<and> prefix (list_alerts (module_init clk) limit) (list_alerts (module_init clk) 4)
    \<and> (limit = 0 \<longrightarrow> list_alerts (module_init clk) limit = [])
    \<and> (4 < limit \<longrightarrow> list_alerts (module_init clk) limit = FAKE_ALERTS (module_init clk))"
proof -
  let ?xs = "FAKE_ALERTS (module_init clk)"
  have len: "length ?xs = 4"
    by (simp add: FAKE_ALERTS_module_init length_init_FAKE_ALERTS)
  have served: "fst (app (module_init clk) (GetAlerts (Some limit)))
          = Inr (AlertsBody (list_alerts (module_init clk) limit))"
    by simp
  have eq: "list_alerts (module_init clk) limit = take (nat limit) ?xs"
    using assms by (simp add: list_alerts_def slice_to_nonneg)
  have count: "int (length (list_alerts (module_init clk) limit)) = min limit 4"
    using assms by (simp add: eq len)
  have ids: "map alert_id (list_alerts (module_init clk) limit)
          = take (nat limit) [''a_1'', ''a_2'', ''a_3'', ''a_4'']"
    by (simp add: eq take_map [symmetric] FAKE_ALERTS_module_init alert_ids)
  have pre: "prefix (list_alerts (module_init clk) limit) ?xs"
    by (simp add: eq take_is_prefix)
  have "list_alerts (module_init clk) 4 = ?xs"
    by (simp add: list_alerts_def slice_to_nonneg len)
  then have pre4: "prefix (list_alerts (module_init clk) limit) (list_alerts (module_init clk) 4)"
    by (simp add: eq take_is_prefix)
  have zero: "limit = 0 \<longrightarrow> list_alerts (module_init clk) limit = []"
    by (simp add: list_alerts_def slice_to_nonneg)
  have above: "4 < limit \<longrightarrow> list_alerts (module_init clk) limit = ?xs"
    by (simp add: eq len)
  from served eq count ids pre pre4 zero above show ?thesis
    by blast
qed

theorem list_alerts_prefix_witness:
  "(0::int) \<le> 2
   \<and> map alert_id (list_alerts (module_init sample_clock) 2) = [''a_1'', ''a_2'']
   \<and> int (length (list_alerts (module_init sample_clock) 2)) = 2
   \<and> map alert_id (list_alerts (module_init sample_clock) 7) = [''a_1'', ''a_2'', ''a_3'', ''a_4'']
   \<and> list_alerts (module_init sample_clock) 0 = []"
proof -
  have two: "(0::int) \<le> 2" and seven: "(0::int) \<le> 7" and zero: "(0::int) \<le> 0"
    by simp_all
  from list_alerts_prefix [OF two, of sample_clock]
  have "map alert_id (list_alerts (module_init sample_clock) 2)
          = take (nat 2) [''a_1'', ''a_2'', ''a_3'', ''a_4'']"
    and l2: "int (length (list_alerts (module_init sample_clock) 2)) = min 2 4"
    by blast+
  then have ids2: "map alert_id (list_alerts (module_init sample_clock) 2) = [''a_1'', ''a_2'']"
    by (simp add: eval_nat_numeral)
  from list_alerts_prefix [OF seven, of sample_clock]
  have "map alert_id (list_alerts (module_init sample_clock) 7)
          = take (nat 7) [''a_1'', ''a_2'', ''a_3'', ''a_4'']"
    by blast
  then have ids7: "map alert_id (list_alerts (module_init sample_clock) 7)
          = [''a_1'', ''a_2'', ''a_3'', ''a_4'']"
    by (simp add: eval_nat_numeral)
  from list_alerts_prefix [OF zero, of sample_clock]
  have none: "list_alerts (module_init sample_clock) 0 = []"
    by blast
  from two ids2 l2 ids7 none show ?thesis
    by simp
qed

lemma list_alerts_length_le: "length (list_alerts (module_init clk) limit) \<le> 4"
  by (simp add: list_alerts_def slice_to_def Let_def FAKE_ALERTS_module_init
      length_init_FAKE_ALERTS)

lemma list_alerts_is_prefix: "prefix (list_alerts g limit) (FAKE_ALERTS g)"
  by (simp add: list_alerts_def slice_to_def Let_def take_is_prefix)

text \<open>
  Claim C9. \<open>list_alerts\<close> is total over the integers: for every \<open>limit\<close>, negative ones
  included, and also when the query leaves the limit out, the route answers with status
  200 and a list of at most 4 alerts that is a prefix of the fixture, so its elements
  appear in fixture order. The slice has no failing case, and no limit makes the handler
  raise.
\<close>

theorem list_alerts_total:
  "fst (app (module_init clk) (GetAlerts (Some limit)))
      = Inr (AlertsBody (list_alerts (module_init clk) limit))
   \<and> http_status (fst (app (module_init clk) (GetAlerts (Some limit)))) = 200
   \<and> length (list_alerts (module_init clk) limit) \<le> 4
   \<and> prefix (list_alerts (module_init clk) limit) (FAKE_ALERTS (module_init clk))
   \<and> subseq (list_alerts (module_init clk) limit) (FAKE_ALERTS (module_init clk))
   \<and> fst (app (module_init clk) (GetAlerts None)) = Inr (AlertsBody (FAKE_ALERTS (module_init clk)))"
proof -
  have "list_alerts (module_init clk) 10 = FAKE_ALERTS (module_init clk)"
    by (simp add: list_alerts_def slice_to_nonneg FAKE_ALERTS_module_init
        length_init_FAKE_ALERTS)
  then show ?thesis
    by (simp add: list_alerts_length_le list_alerts_is_prefix prefix_imp_subseq)
qed

text \<open>
  Claim C3, as the code has it. A negative \<open>limit\<close> is not rejected: the route answers
  with status 200. The slice counts the bound from the end, so the answer is the fixture
  without its last \<open>- limit\<close> entries: the first \<open>4 + limit\<close> alerts (none when
  \<open>limit \<le> - 4\<close>), a prefix in display order, which never holds the last alert \<open>a_4\<close>.
\<close>

theorem list_alerts_negative:
  assumes "limit < 0"
  shows "fst (app (module_init clk) (GetAlerts (Some limit)))
           = Inr (AlertsBody (list_alerts (module_init clk) limit))
    \<and> http_status (fst (app (module_init clk) (GetAlerts (Some limit)))) = 200
    \<and> list_alerts (module_init clk) limit
         = rev (drop (nat (- limit)) (rev (FAKE_ALERTS (module_init clk))))
    \<and> list_alerts (module_init clk) limit
         = take (nat (4 + limit)) (FAKE_ALERTS (module_init clk))
    \<and> int (length (list_alerts (module_init clk) limit)) = max (4 + limit) 0
    \<and> prefix (list_alerts (module_init clk) limit) (FAKE_ALERTS (module_init clk))
    \<and> ''a_4'' \<notin> set (map alert_id (list_alerts (module_init clk) limit))"
proof -
  let ?xs = "FAKE_ALERTS (module_init clk)"
  have len: "length ?xs = 4"
    by (simp add: FAKE_ALERTS_module_init length_init_FAKE_ALERTS)
  have k: "4 - nat (- limit) = nat (4 + limit)"
    using assms by arith
  have eq: "list_alerts (module_init clk) limit = take (nat (4 + limit)) ?xs"
    using assms by (simp add: list_alerts_def slice_to_neg len k)
  have dropped: "list_alerts (module_init clk) limit = rev (drop (nat (- limit)) (rev ?xs))"
    by (simp add: eq rev_drop len k)
  have count: "int (length (list_alerts (module_init clk) limit)) = max (4 + limit) 0"
    using assms by (simp add: eq len)
  have "nat (4 + limit) \<le> 3"
    using assms by arith
  then have "set (take (nat (4 + limit)) [''a_1'', ''a_2'', ''a_3'', ''a_4''])
               \<subseteq> set (take 3 [''a_1'', ''a_2'', ''a_3'', ''a_4''])"
    by (rule set_take_subset_set_take)
  then have "''a_4'' \<notin> set (take (nat (4 + limit)) [''a_1'', ''a_2'', ''a_3'', ''a_4''])"
    by (auto simp: eval_nat_numeral)
  moreover have "map alert_id (list_alerts (module_init clk) limit)
          = take (nat (4 + limit)) [''a_1'', ''a_2'', ''a_3'', ''a_4'']"
    by (simp add: eq take_map [symmetric] FAKE_ALERTS_module_init alert_ids)
  ultimately have last_out: "''a_4'' \<notin> set (map alert_id (list_alerts (module_init clk) limit))"
    by (rule ssubst [rotated])
  have served: "fst (app (module_init clk) (GetAlerts (Some limit)))
           = Inr (AlertsBody (list_alerts (module_init clk) limit))"
    and ok: "http_status (fst (app (module_init clk) (GetAlerts (Some limit)))) = 200"
    by simp_all
  from served ok dropped eq count list_alerts_is_prefix last_out show ?thesis
    by blast
qed

theorem list_alerts_negative_witness:
  "(- 3 :: int) < 0
   \<and> map alert_id (list_alerts (module_init sample_clock) (- 3)) = [''a_1'']
   \<and> int (length (list_alerts (module_init sample_clock) (- 3))) = 1"
proof -
  have neg: "(- 3 :: int) < 0"
    by simp
  from list_alerts_negative [OF neg, of sample_clock]
  have eq: "list_alerts (module_init sample_clock) (- 3)
          = take (nat (4 + - 3)) (FAKE_ALERTS (module_init sample_clock))"
    and l: "int (length (list_alerts (module_init sample_clock) (- 3))) = max (4 + - 3) 0"
    by blast+
  have "map alert_id (list_alerts (module_init sample_clock) (- 3)) = [''a_1'']"
    by (simp add: eq take_map [symmetric] FAKE_ALERTS_module_init alert_ids)
  with neg l show ?thesis
    by simp
qed

text \<open>
  The claim as stated says that negative slicing returns entries from the end of the
  alert sequence. At \<open>limit = - 1\<close> the answer is \<open>a_1, a_2, a_3\<close>: the entries from the
  front. It is not a final segment of the fixture, and the one entry at the end, \<open>a_4\<close>,
  is the one left out.
\<close>

theorem list_alerts_negative_counterexample:
  "map alert_id (list_alerts (module_init sample_clock) (- 1)) = [''a_1'', ''a_2'', ''a_3'']
   \<and> \<not> suffix (list_alerts (module_init sample_clock) (- 1))
          (FAKE_ALERTS (module_init sample_clock))
   \<and> map alert_id (list_alerts (module_init sample_clock) (- 1))
        \<noteq> map alert_id (drop 3 (FAKE_ALERTS (module_init sample_clock)))"
proof -
  let ?ys = "list_alerts (module_init sample_clock) (- 1)"
  let ?xs = "FAKE_ALERTS (module_init sample_clock)"
  have "?ys = take 3 ?xs"
    by (simp add: list_alerts_def slice_to_neg FAKE_ALERTS_module_init length_init_FAKE_ALERTS)
  then have ids: "map alert_id ?ys = [''a_1'', ''a_2'', ''a_3'']"
    by (simp add: take_map [symmetric] FAKE_ALERTS_module_init alert_ids eval_nat_numeral)
  have all_ids: "map alert_id ?xs = [''a_1'', ''a_2'', ''a_3'', ''a_4'']"
    by (simp add: FAKE_ALERTS_module_init alert_ids)
  have "\<not> suffix (map alert_id ?ys) (map alert_id ?xs)"
    unfolding ids all_ids by (simp add: suffix_to_prefix)
  then have no_suffix: "\<not> suffix ?ys ?xs"
    using map_mono_suffix by blast
  have "map alert_id (drop 3 ?xs) = [''a_4'']"
    by (simp add: drop_map [symmetric] all_ids)
  with ids have differ: "map alert_id ?ys \<noteq> map alert_id (drop 3 ?xs)"
    by simp
  from ids no_suffix differ show ?thesis
    by blast
qed

section \<open>No handler writes the globals\<close>

lemma app_globals: "snd (app g r) = g"
  by (cases "(g, r)" rule: app.cases) (simp_all split: option.split)

lemma serve_eq: "serve g rs = (map (\<lambda>r. fst (app g r)) rs, g)"
proof (induction rs)
  case Nil
  show ?case by simp
next
  case (Cons r rs)
  obtain out where out: "app g r = (out, g)"
    using app_globals [of g r] by (cases "app g r") simp
  with Cons show ?case by simp
qed

lemma serve_globals: "snd (serve g rs) = g"
  by (simp add: serve_eq)

section \<open>Authentication\<close>

lemma FAKE_USER_module_init: "FAKE_USER (module_init clk) = init_FAKE_USER"
  by (simp add: module_init_def)

lemma login_module_init:
  "login (module_init clk) payload
     = (if email payload = ''mxdev@example.de'' then Inr init_FAKE_USER
        else Inl (HTTPException 401 (''Ung'' @ [CHR 0xC3, CHR 0xBC] @ ''ltige Zugangsdaten'')))"
  by (simp add: login_def FAKE_USER_module_init init_FAKE_USER_def)

lemma EmailStr_configured: "EmailStr ''mxdev@example.de'' = Some ''mxdev@example.de''"
  by code_simp














text \<open>
  Claim C4. Whatever the password, the user returned by \<open>get_me\<close> is the user returned by
  a \<open>login\<close> with the configured e-mail: both are the one static record \<open>FAKE_USER\<close>, and
  the two routes answer with the same body.
\<close>

theorem get_me_is_login_user:
  "login (module_init clk) \<lparr>email = ''mxdev@example.de'', password = pw\<rparr>
      = Inr (get_me (module_init clk))
   \<and> fst (app (module_init clk) (PostLogin ''mxdev@example.de'' pw))
      = fst (app (module_init clk) GetMe)
   \<and> get_me (module_init clk)
      = \<lparr>user_id = ''u_123'', user_email = ''mxdev@example.de'', user_plan = ''pro''\<rparr>"
  by (simp add: login_module_init get_me_def FAKE_USER_module_init init_FAKE_USER_def
      new_LoginRequest_def EmailStr_configured)

section \<open>Overview\<close>

lemma float_99_96_value: "float_99_96 = 7034059667999293 / 2 ^ 46"
  by (simp add: float_99_96_def double_def)

lemma float_99_96_nearest: "\<bar>float_99_96 - 9996 / 100\<bar> \<le> 1 / 2 ^ 47"
  by (simp add: float_99_96_value)

text \<open>
  Claim C6. \<open>get_overview\<close> returns, on every call (from any globals \<open>g\<close>, and after any
  sequence \<open>rs\<close> of earlier requests), one and the same complete record: each of the eight
  fields has the value written in the source. \<open>overall_score\<close> is 89 and \<open>targets_total\<close>
  is 4; \<open>uptime_percent\<close> is the double that the literal 99.96 denotes, which is within
  half a unit in the last place of the decimal.
\<close>

theorem get_overview_snapshot:
  "fst (app g GetOverview) = Inr (OverviewBody get_overview)
   \<and> fst (app (snd (serve g rs)) GetOverview) = Inr (OverviewBody get_overview)
   \<and> http_status (fst (app g GetOverview)) = 200
   \<and> get_overview
      = \<lparr>overall_score = 89, score_change = 4, attacks_last_24h = 432,
         attacks_change_percent = 18,
         uptime_percent = 7034059667999293 / 2 ^ 46,
         uptime_note = ''1 kurzer Ausfall bei shop.mxdev.de (3 Minuten).'',
         targets_total = 4,
         targets_note = ''3 Websites, 1 Server. Grenze deines Pro-Plans.''\<rparr>
   \<and> overall_score get_overview = 89
   \<and> targets_total get_overview = 4
   \<and> \<bar>uptime_percent get_overview - 9996 / 100\<bar> \<le> 1 / 2 ^ 47"
proof -
  have rec: "get_overview
      = \<lparr>overall_score = 89, score_change = 4, attacks_last_24h = 432,
         attacks_change_percent = 18,
         uptime_percent = 7034059667999293 / 2 ^ 46,
         uptime_note = ''1 kurzer Ausfall bei shop.mxdev.de (3 Minuten).'',
         targets_total = 4,
         targets_note = ''3 Websites, 1 Server. Grenze deines Pro-Plans.''\<rparr>"
    by (simp add: get_overview_def float_99_96_value)
  have near: "\<bar>uptime_percent get_overview - 9996 / 100\<bar> \<le> 1 / 2 ^ 47"
    using float_99_96_nearest by (simp add: get_overview_def)
  have "overall_score get_overview = 89" and "targets_total get_overview = 4"
    by (simp_all add: get_overview_def)
  with rec near show ?thesis
    by simp
qed

section \<open>Determinism and purity\<close>

text \<open>
  Claim C8. Every operation (\<open>login\<close>, \<open>get_me\<close>, \<open>get_overview\<close>, \<open>list_websites\<close>,
  \<open>list_alerts\<close>, \<open>root\<close>) leaves the globals as they were, \<open>login\<close> included, which
  records no session. So a run of requests answers each request as if it were the first,
  and a request repeated after any run of other requests gets the answer it got before.
\<close>

theorem app_deterministic_pure:
  "snd (app g r) = g
   \<and> snd (app g (PostLogin raw_email raw_password)) = g
   \<and> serve g rs = (map (\<lambda>q. fst (app g q)) rs, g)
   \<and> app (snd (serve g rs)) r = app g r
   \<and> app (snd (app g r)) r = app g r"
  by (simp add: app_globals serve_eq del: app.simps)

section \<open>Websites\<close>

lemma FAKE_WEBSITES_module_init: "FAKE_WEBSITES (module_init clk) = init_FAKE_WEBSITES clk"
  by (simp add: module_init_def)

lemma website_ids:
  "map website_id (init_FAKE_WEBSITES clk) = [''w_1'', ''w_2'', ''w_3'', ''w_4'']"
  by (simp add: init_FAKE_WEBSITES_def)

lemma valid_mxdev: "valid_domain ''mxdev.de''"
  by (simp add: valid_domain_def valid_label_def label_char_def)

lemma valid_shop: "valid_domain ''shop.mxdev.de''"
  by (simp add: valid_domain_def valid_label_def label_char_def)

lemma valid_demo: "valid_domain ''demo.mxsec.app''"
  by (simp add: valid_domain_def valid_label_def label_char_def)

lemma valid_kundenprojekt: "valid_domain ''kundenprojekt.de''"
  by (simp add: valid_domain_def valid_label_def label_char_def)

lemma websites_domains_statuses:
  "\<forall>w\<in>set (init_FAKE_WEBSITES clk).
      valid_domain (domain w) \<and> status w \<in> set documented_statuses"
  by (simp add: init_FAKE_WEBSITES_def documented_statuses_def
      valid_mxdev valid_shop valid_demo valid_kundenprojekt)

lemma websites_optionals:
  "\<forall>w\<in>set (init_FAKE_WEBSITES clk).
      last_score w \<noteq> None \<and> last_scan_at w \<noteq> None \<and> risk_level w \<noteq> None"
  by (simp add: init_FAKE_WEBSITES_def)

lemma hd_sample_websites:
  "hd (list_websites (module_init sample_clock)) \<in> set (list_websites (module_init sample_clock))"
  by (simp add: list_websites_def FAKE_WEBSITES_module_init init_FAKE_WEBSITES_def)

text \<open>
  Claim C5. \<open>list_websites\<close> always returns the same four entries in the same order (from
  the globals of any import, and after any sequence \<open>rs\<close> of earlier requests): their ids
  are \<open>w_1, w_2, w_3, w_4\<close>, every domain is a valid host name, and every status is one of
  the statuses the specification documents.
\<close>

theorem list_websites_fixture:
  "fst (app (module_init clk) GetWebsites)
      = Inr (WebsitesBody (list_websites (module_init clk)))
   \<and> fst (app (snd (serve (module_init clk) rs)) GetWebsites)
      = Inr (WebsitesBody (list_websites (module_init clk)))
   \<and> length (list_websites (module_init clk)) = 4
   \<and> map website_id (list_websites (module_init clk)) = [''w_1'', ''w_2'', ''w_3'', ''w_4'']
   \<and> (\<forall>w\<in>set (list_websites (module_init clk)).
         valid_domain (domain w) \<and> status w \<in> set documented_statuses)"
proof -
  have "length (map website_id (init_FAKE_WEBSITES clk)) = 4"
    by (simp only: website_ids) simp
  then have len: "length (list_websites (module_init clk)) = 4"
    by (simp add: list_websites_def FAKE_WEBSITES_module_init)
  have ids: "map website_id (list_websites (module_init clk)) = [''w_1'', ''w_2'', ''w_3'', ''w_4'']"
    by (simp add: list_websites_def FAKE_WEBSITES_module_init website_ids)
  have each: "\<forall>w\<in>set (list_websites (module_init clk)).
         valid_domain (domain w) \<and> status w \<in> set documented_statuses"
    using websites_domains_statuses [of clk]
    by (simp add: list_websites_def FAKE_WEBSITES_module_init)
  have "fst (app (snd (serve (module_init clk) rs)) GetWebsites)
      = Inr (WebsitesBody (list_websites (module_init clk)))"
    by (simp add: serve_globals)
  with len ids each show ?thesis
    by simp
qed

theorem list_websites_fixture_witness:
  "map website_id (list_websites (module_init sample_clock)) = [''w_1'', ''w_2'', ''w_3'', ''w_4'']
   \<and> valid_domain (domain (hd (list_websites (module_init sample_clock))))
   \<and> status (hd (list_websites (module_init sample_clock))) \<in> set documented_statuses
   \<and> domain (hd (list_websites (module_init sample_clock))) = ''mxdev.de''"
proof -
  have "domain (hd (list_websites (module_init sample_clock))) = ''mxdev.de''"
    by (simp add: list_websites_def FAKE_WEBSITES_module_init init_FAKE_WEBSITES_def)
  with list_websites_fixture [of sample_clock "[]"] hd_sample_websites show ?thesis
    by blast
qed

text \<open>
  Claim C10. \<open>Website\<close> declares \<open>last_score\<close>, \<open>last_scan_at\<close> and \<open>risk_level\<close> as
  optional, and each of the four fixture websites sets all three: no entry that
  \<open>list_websites\<close> returns, on any call, has one of them absent.
\<close>

theorem websites_optionals_present:
  "(\<forall>w\<in>set (list_websites (module_init clk)).
       last_score w \<noteq> None \<and> last_scan_at w \<noteq> None \<and> risk_level w \<noteq> None)
   \<and> map last_score (list_websites (module_init clk)) = [Some 93, Some 81, Some 67, Some 54]
   \<and> map last_scan_at (list_websites (module_init clk))
      = [Some (clk 0 - timedelta 0 0 20), Some (clk 1 - timedelta 0 1 30),
         Some (clk 2 - timedelta 0 12 0), Some (clk 3 - timedelta 1 0 0)]
   \<and> map risk_level (list_websites (module_init clk))
      = [Some ''low'', Some ''medium'', Some ''high'', Some ''critical'']
   \<and> fst (app (snd (serve (module_init clk) rs)) GetWebsites)
      = Inr (WebsitesBody (list_websites (module_init clk)))"
proof -
  have each: "\<forall>w\<in>set (list_websites (module_init clk)).
       last_score w \<noteq> None \<and> last_scan_at w \<noteq> None \<and> risk_level w \<noteq> None"
    using websites_optionals [of clk]
    by (simp add: list_websites_def FAKE_WEBSITES_module_init)
  have fields: "map last_score (list_websites (module_init clk))
        = [Some 93, Some 81, Some 67, Some 54]"
    "map last_scan_at (list_websites (module_init clk))
      = [Some (clk 0 - timedelta 0 0 20), Some (clk 1 - timedelta 0 1 30),
         Some (clk 2 - timedelta 0 12 0), Some (clk 3 - timedelta 1 0 0)]"
    "map risk_level (list_websites (module_init clk))
      = [Some ''low'', Some ''medium'', Some ''high'', Some ''critical'']"
    by (simp_all add: list_websites_def FAKE_WEBSITES_module_init init_FAKE_WEBSITES_def)
  have "fst (app (snd (serve (module_init clk) rs)) GetWebsites)
      = Inr (WebsitesBody (list_websites (module_init clk)))"
    by (simp add: serve_globals)
  with each fields show ?thesis
    by simp
qed

theorem websites_optionals_present_witness:
  "last_score (hd (list_websites (module_init sample_clock))) \<noteq> None
   \<and> last_scan_at (hd (list_websites (module_init sample_clock))) \<noteq> None
   \<and> risk_level (hd (list_websites (module_init sample_clock))) \<noteq> None
   \<and> map last_score (list_websites (module_init sample_clock))
      = [Some 93, Some 81, Some 67, Some 54]"
  using websites_optionals_present [of sample_clock "[]"] hd_sample_websites
  by blast

section \<open>Invariants of the fixtures\<close>

lemma ids_unique_init: "ids_unique (module_init clk)"
  by (simp add: ids_unique_def FAKE_WEBSITES_module_init FAKE_ALERTS_module_init
      website_ids alert_ids)

lemma paired_optionality_init: "paired_optionality (module_init clk)"
  by (simp add: paired_optionality_def FAKE_WEBSITES_module_init init_FAKE_WEBSITES_def)

lemma created_ats:
  "map created_at (init_FAKE_ALERTS clk)
     = [clk 4 - 300000000, clk 5 - 720000000, clk 6 - 2040000000, clk 7 - 3600000000]"
  by (simp add: init_FAKE_ALERTS_def timedelta_def)

lemma newest_first_init: "newest_first (module_init clk) \<longleftrightarrow> readings_close clk"
proof -
  have "newest_first (module_init clk)
          \<longleftrightarrow> sorted_wrt (\<lambda>x y. y < x) (map created_at (init_FAKE_ALERTS clk))"
    by (simp add: newest_first_def FAKE_ALERTS_module_init sorted_wrt_map)
  also have "\<dots> \<longleftrightarrow> readings_close clk"
    unfolding created_ats by (auto simp: readings_close_def timedelta_def)
  finally show ?thesis .
qed

lemma sample_clock_close: "readings_close sample_clock"
  by (simp add: readings_close_def sample_clock_def timedelta_def)

text \<open>
  Claim C7, as the code has it. Identifiers are unique within each collection and
  \<open>last_score\<close> and \<open>risk_level\<close> are present together, for every import. Each alert reads
  the clock for itself, so the alerts' \<open>created_at\<close> decreases along the display order
  exactly when the readings are close: each taken less than 7, 22 and 26 minutes after
  the one before, as in any import that does not stall. No operation writes the
  fixtures, so an invariant that holds after the import holds after every sequence \<open>rs\<close>
  of requests, and every request \<open>r\<close> preserves the invariants from any globals \<open>g\<close>.
\<close>

theorem fixture_invariants_init:
  "ids_unique (module_init clk)
   \<and> paired_optionality (module_init clk)
   \<and> (newest_first (module_init clk) \<longleftrightarrow> readings_close clk)
   \<and> (readings_close clk \<longrightarrow>
         fixture_invariants (module_init clk)
         \<and> fixture_invariants (snd (serve (module_init clk) rs)))
   \<and> (fixture_invariants g \<longrightarrow> fixture_invariants (snd (app g r)))"
proof -
  have "readings_close clk \<longrightarrow>
         fixture_invariants (module_init clk)
         \<and> fixture_invariants (snd (serve (module_init clk) rs))"
    by (simp add: fixture_invariants_def ids_unique_init paired_optionality_init
        newest_first_init serve_globals)
  moreover have "fixture_invariants g \<longrightarrow> fixture_invariants (snd (app g r))"
    by (simp add: app_globals)
  ultimately show ?thesis
    by (simp add: ids_unique_init paired_optionality_init newest_first_init)
qed

theorem fixture_invariants_init_witness:
  "readings_close sample_clock
   \<and> fixture_invariants (module_init sample_clock)
   \<and> fixture_invariants (snd (serve (module_init sample_clock) [GetAlerts None, GetRoot]))
   \<and> fixture_invariants (snd (app (module_init sample_clock) GetWebsites))"
  using fixture_invariants_init [of sample_clock "[GetAlerts None, GetRoot]"
      "module_init sample_clock" GetWebsites] sample_clock_close
  by blast

text \<open>
  The claim as stated gives the third invariant to every import. When the import stalls
  for ten minutes between the first and the second alert, the second alert is stamped
  two minutes before the second reading, which is three minutes after the stamp of the
  first: the later entry is the newer one.
\<close>

theorem fixture_invariants_counterexample:
  "\<not> fixture_invariants (module_init stalled_clock)
   \<and> created_at (FAKE_ALERTS (module_init stalled_clock) ! 0)
       < created_at (FAKE_ALERTS (module_init stalled_clock) ! 1)"
proof -
  have "\<not> readings_close stalled_clock"
    by (simp add: readings_close_def stalled_clock_def timedelta_def)
  then have "\<not> fixture_invariants (module_init stalled_clock)"
    by (simp add: fixture_invariants_def newest_first_init)
  moreover have "created_at (FAKE_ALERTS (module_init stalled_clock) ! 0)
       < created_at (FAKE_ALERTS (module_init stalled_clock) ! 1)"
    by (simp add: FAKE_ALERTS_module_init init_FAKE_ALERTS_def stalled_clock_def timedelta_def)
  ultimately show ?thesis
    by simp
qed

end
